theory Spec2Isabelle
  imports Main "HOL-Library.Sublist"
begin

section \<open>Data model\<close>

text \<open>
  The fields of \<^verbatim>\<open>compiler.Contract\<close> and its \<^verbatim>\<open>Info\<close> that
  \<^verbatim>\<open>VerifyContract\<close> reads. Nothing else of a compiled unit enters the result.
\<close>

record ContractInfo =
  Source :: string
  CompilerVersion :: string

record CompiledContract =
  RuntimeCode :: string
  Info :: ContractInfo

text \<open>
  \<^verbatim>\<open>models.Contract\<close>, with the fields \<^verbatim>\<open>VerifyContract\<close> reads or writes.
  \<^verbatim>\<open>UpdatedAt\<close> is a point in time, counted in some unit from some epoch.
\<close>

record Contract =
  Address :: string
  Bytecode :: string
  Valid :: bool
  Optimization :: bool
  ContractName :: string
  SourceCode :: string
  CompilerVersion :: string
  UpdatedAt :: int

text \<open>\<^verbatim>\<open>compiler.Solidity\<close>, the answer of the version query.\<close>

record Solidity =
  FullVersion :: string

text \<open>
  A call that does not return a value either returns a Go \<^verbatim>\<open>error\<close>, made by
  \<^verbatim>\<open>errors.New\<close> from a message, or panics at run time.
\<close>

datatype failure = Error string | Panic string

text \<open>
  What the methods call outside this file: the two methods of the Mongo backend they use
  (over a database state \<open>'db\<close>), the address normalisation
  \<^verbatim>\<open>common.HexToAddress(a).Hex()\<close>, the Solidity compiler (\<open>None\<close> when it returns an
  error) and the clock.
\<close>

record 'db World =
  getContract :: "'db \<Rightarrow> string \<Rightarrow> Contract option"
  updateContract :: "'db \<Rightarrow> Contract \<Rightarrow> bool \<times> 'db"
  HexToAddress_Hex :: "string \<Rightarrow> string"
  CompileSolidityString :: "string \<Rightarrow> string \<Rightarrow> (string \<rightharpoonup> CompiledContract) option"
  SolidityVersion :: "string \<Rightarrow> Solidity option"
  time_Now :: int

section \<open>The two regular expressions\<close>

text \<open>
  Go strings are byte sequences, as \<^typ>\<open>string\<close> is. Both patterns start with an ASCII
  character, which never occurs inside a multi-byte rune, so matching byte by byte is what
  the \<^verbatim>\<open>regexp\<close> package does on them.
\<close>

definition metadata_marker :: string where
  "metadata_marker = ''00a165627a7a72305820''"

text \<open>
  \<^verbatim>\<open>00a165627a7a72305820.*0029$\<close> matching from the first character of \<open>s\<close>: the
  marker, then \<^verbatim>\<open>.*\<close>, then \<^verbatim>\<open>0029\<close> at the end of the text. Without the flag
  \<^verbatim>\<open>s\<close> a dot is any character but the line feed; without the flag \<^verbatim>\<open>m\<close> the
  dollar is the end of the text only.
\<close>

definition reg_match_here :: "string \<Rightarrow> bool" where
  "reg_match_here s =
     (prefix metadata_marker s \<and>
      (let r = drop (length metadata_marker) s
       in suffix ''0029'' r \<and> CHR 0x0A \<notin> set (take (length r - 4) r)))"

text \<open>
  \<^verbatim>\<open>reg.ReplaceAllString(s, ``)\<close>: the leftmost match is replaced by the empty string.
  A match ends where the text ends, so there is no second one.
\<close>

fun reg_ReplaceAllString :: "string \<Rightarrow> string" where
  "reg_ReplaceAllString [] = []"
| "reg_ReplaceAllString (c # cs) =
     (if reg_match_here (c # cs) then [] else c # reg_ReplaceAllString cs)"

definition is_digit :: "char \<Rightarrow> bool" where
  "is_digit c = (c \<in> set ''0123456789'')"

text \<open>
  \<^verbatim>\<open>([0-9]+)\.([0-9]+)\.([0-9]+)\+commit\.[^.]*\<close> matching from the first character of
  \<open>s\<close>: the whole match and the three groups. Each group is followed by a character that is
  not a digit, so it is the longest run of digits there; the greedy \<^verbatim>\<open>[^.]*\<close> runs to
  the next dot or to the end of the text (a negated class matches the line feed too).
\<close>

definition versionRegexp_match_here :: "string \<Rightarrow> string list" where
  "versionRegexp_match_here s =
     (let d1 = takeWhile is_digit s; r1 = dropWhile is_digit s
      in if d1 = [] \<or> \<not> prefix ''.'' r1 then []
      else let d2 = takeWhile is_digit (drop 1 r1); r2 = dropWhile is_digit (drop 1 r1)
      in if d2 = [] \<or> \<not> prefix ''.'' r2 then []
      else let d3 = takeWhile is_digit (drop 1 r2); r3 = dropWhile is_digit (drop 1 r2)
      in if d3 = [] \<or> \<not> prefix ''+commit.'' r3 then []
      else let h = takeWhile (\<lambda>c. c \<noteq> CHR ''.'') (drop 8 r3)
      in [d1 @ ''.'' @ d2 @ ''.'' @ d3 @ ''+commit.'' @ h, d1, d2, d3])"

text \<open>
  \<^verbatim>\<open>versionRegexp.FindStringSubmatch(s)\<close>: the leftmost match with its groups, the nil
  slice (here the empty list) when there is none.
\<close>

fun versionRegexp_FindStringSubmatch :: "string \<Rightarrow> string list" where
  "versionRegexp_FindStringSubmatch [] = []"
| "versionRegexp_FindStringSubmatch (c # cs) =
     (case versionRegexp_match_here (c # cs) of
        [] \<Rightarrow> versionRegexp_FindStringSubmatch cs
      | m # gs \<Rightarrow> m # gs)"

section \<open>The methods of the backend\<close>

text \<open>The slice expression \<^verbatim>\<open>s[n:]\<close>, which panics when \<open>n\<close> is beyond the length.\<close>

definition slice_from :: "nat \<Rightarrow> string \<Rightarrow> string option" where
  "slice_from n s = (if n \<le> length s then Some (drop n s) else None)"

definition GetContract :: "'db World \<Rightarrow> 'db \<Rightarrow> string \<Rightarrow> Contract option" where
  "GetContract W db contractAddress = getContract W db (HexToAddress_Hex W contractAddress)"

definition VerifyContract ::
  "'db World \<Rightarrow> 'db \<Rightarrow> Contract \<Rightarrow> (failure + Contract) \<times> 'db" where
  "VerifyContract W db contractData =
     (case GetContract W db (Address contractData) of
        None \<Rightarrow> (Inl (Error ''contract with given address not found''), db)
      | Some contract \<Rightarrow>
          if Valid contract = True
          then (Inl (Error ''contract with given address is already verified''), db)
          else
            (case CompileSolidityString W ''solc'' (SourceCode contractData) of
               None \<Rightarrow> (Inl (Error ''error occurred while compiling source code''), db)
             | Some compileData \<Rightarrow>
                 let key = ''<stdin>:'' @ ContractName contractData
                 in (case compileData key of
                       None \<Rightarrow> (Inl (Error ''invalid contract name''), db)
                     | Some unit \<Rightarrow>
                         if RuntimeCode unit = ''''
                         then (Inl (Error ''contract binary is empty''), db)
                         else
                           (case slice_from 2 (RuntimeCode unit) of
                              None \<Rightarrow> (Inl (Panic ''slice bounds out of range''), db)
                            | Some code \<Rightarrow>
                                let sourceBin = reg_ReplaceAllString code;
                                    contractBin = reg_ReplaceAllString (Bytecode contract)
                                in if sourceBin = contractBin
                                   then
                                     let contract' = contract
                                           \<lparr>Valid := True,
                                            Optimization := True,
                                            ContractName := ContractName contractData,
                                            SourceCode := Source (Info unit),
                                            CompilerVersion := ContractInfo.CompilerVersion (Info unit),
                                            UpdatedAt := time_Now W\<rparr>;
                                         (result, db') = updateContract W db contract'
                                     in if \<not> result
                                        then (Inl (Error ''error occurred while processing data''), db')
                                        else (Inr contract', db')
                                   else
                                     (Inl (Error
                                        (''the compiled result does not match the input creation bytecode located at ''
                                          @ Address contractData)), db)))))"

definition GetCompilerVersion :: "'db World \<Rightarrow> failure + string" where
  "GetCompilerVersion W =
     (case SolidityVersion W ''solc'' of
        None \<Rightarrow> Inl (Error ''error occurred while processing'')
      | Some result \<Rightarrow>
          (case versionRegexp_FindStringSubmatch (FullVersion result) of
             [] \<Rightarrow> Inl (Panic ''index out of range'')
           | v # _ \<Rightarrow> Inr v))"

section \<open>The names of the errors\<close>

text \<open>
  The methods build their errors from messages; the specification names them. Each name
  below is the error value the code returns at that place.
\<close>

definition NotFound :: failure where
  "NotFound = Error ''contract with given address not found''"

definition AlreadyVerified :: failure where
  "AlreadyVerified = Error ''contract with given address is already verified''"

definition CompilationFailed :: failure where
  "CompilationFailed = Error ''error occurred while compiling source code''"

definition UnknownContractName :: failure where
  "UnknownContractName = Error ''invalid contract name''"

definition EmptyBytecode :: failure where
  "EmptyBytecode = Error ''contract binary is empty''"

definition BytecodeMismatch :: "string \<Rightarrow> failure" where
  "BytecodeMismatch address =
     Error (''the compiled result does not match the input creation bytecode located at '' @ address)"

definition PersistenceFailed :: failure where
  "PersistenceFailed = Error ''error occurred while processing data''"

definition VersionQueryFailed :: failure where
  "VersionQueryFailed = Error ''error occurred while processing''"

section \<open>Bytecode strings\<close>

text \<open>
  The specification's data model has the stored bytecode and the compiled runtime code
  (after its \<^verbatim>\<open>0x\<close>) hex-encoded: the strings that reach the metadata pattern
  consist of hex digits, in either case.
\<close>

definition hex_string :: "string \<Rightarrow> bool" where
  "hex_string s = (set s \<subseteq> set ''0123456789abcdefABCDEF'')"

section \<open>The contract store\<close>

text \<open>
  Modelled from the spec: the contract store behind \<^verbatim>\<open>mongo.getContract\<close> and
  \<^verbatim>\<open>mongo.updateContract\<close>, whose file is not among the sources. The specification
  gives it as records found by address.
\<close>

type_synonym ContractStore = "string \<rightharpoonup> Contract"

text \<open>
  Modelled from the spec: \<^verbatim>\<open>FindByAddress(address) -> ContractRecord | nil\<close>, the
  record stored under the address.
\<close>

definition FindByAddress :: "ContractStore \<Rightarrow> string \<Rightarrow> Contract option" where
  "FindByAddress store address = store address"

text \<open>
  Modelled from the spec: \<^verbatim>\<open>Update(record) -> bool\<close>, atomic, false on conflict or
  failure. Whether the store takes the update is its own affair (\<open>accepts\<close>); an update it
  takes replaces the record of that address, one it rejects changes nothing.
\<close>

definition Update ::
  "(ContractStore \<Rightarrow> Contract \<Rightarrow> bool) \<Rightarrow> ContractStore \<Rightarrow> Contract \<Rightarrow> bool \<times> ContractStore" where
  "Update accepts store record =
     (if accepts store record then (True, store(Address record \<mapsto> record)) else (False, store))"

section \<open>A small world to run the methods in\<close>

text \<open>
  A store of two contracts, the first not yet verified and the second verified; a compiler
  that knows one source, defining the contract \<^verbatim>\<open>Foo\<close> with a given runtime code; the
  identity for the normalisation of addresses.
\<close>

definition Foo_source :: string where
  "Foo_source = ''contract Foo {}''"

definition solc_Foo :: "string \<Rightarrow> string \<Rightarrow> string \<Rightarrow> (string \<rightharpoonup> CompiledContract) option" where
  "solc_Foo code cmd src =
     (if src = Foo_source
      then Some [''<stdin>:Foo'' \<mapsto>
        \<lparr>RuntimeCode = code,
         Info = \<lparr>Source = src, CompilerVersion = ''0.4.24+commit.e67f0147''\<rparr>\<rparr>]
      else None)"

definition stored_record :: "string \<Rightarrow> bool \<Rightarrow> Contract" where
  "stored_record address v =
     \<lparr>Address = address, Bytecode = ''6001'', Valid = v, Optimization = False,
      ContractName = [], SourceCode = [], CompilerVersion = [], UpdatedAt = 0\<rparr>"

definition two_contracts :: ContractStore where
  "two_contracts =
     [''0x01'' \<mapsto> stored_record ''0x01'' False, ''0x02'' \<mapsto> stored_record ''0x02'' True]"

definition small_World :: "bool \<Rightarrow> string \<Rightarrow> string option \<Rightarrow> ContractStore World" where
  "small_World ok code version =
     \<lparr>getContract = FindByAddress,
      updateContract = Update (\<lambda>store record. ok),
      HexToAddress_Hex = (\<lambda>address. address),
      CompileSolidityString = solc_Foo code,
      SolidityVersion = (\<lambda>cmd. map_option (\<lambda>v. \<lparr>FullVersion = v\<rparr>) version),
      time_Now = 1541116800\<rparr>"

definition submission :: "string \<Rightarrow> string \<Rightarrow> string \<Rightarrow> Contract" where
  "submission address name src =
     \<lparr>Address = address, Bytecode = [], Valid = False, Optimization = False,
      ContractName = name, SourceCode = src, CompilerVersion = [], UpdatedAt = 0\<rparr>"

section \<open>Facts about the metadata pattern\<close>

lemma length_metadata_marker: "length metadata_marker = 20"
  by (simp add: metadata_marker_def)

lemma metadata_marker_no_line_feed: "CHR 0x0A \<notin> set metadata_marker"
  by (simp add: metadata_marker_def)

lemma reg_match_here_iff:
  "reg_match_here s \<longleftrightarrow> (\<exists>x. s = metadata_marker @ x @ ''0029'' \<and> CHR 0x0A \<notin> set x)"
proof
  assume m: "reg_match_here s"
  then obtain r where s: "s = metadata_marker @ r"
    by (auto simp: reg_match_here_def prefix_def)
  from m s have suf: "suffix ''0029'' r" and nl: "CHR 0x0A \<notin> set (take (length r - 4) r)"
    by (simp_all add: reg_match_here_def Let_def)
  from suf obtain x where r: "r = x @ ''0029''" by (auto simp: suffix_def)
  with nl have "CHR 0x0A \<notin> set x" by simp
  with s r show "\<exists>x. s = metadata_marker @ x @ ''0029'' \<and> CHR 0x0A \<notin> set x" by blast
next
  assume "\<exists>x. s = metadata_marker @ x @ ''0029'' \<and> CHR 0x0A \<notin> set x"
  then obtain x where s: "s = metadata_marker @ x @ ''0029''" and nl: "CHR 0x0A \<notin> set x" by blast
  show "reg_match_here s"
    unfolding reg_match_here_def Let_def s using nl by (simp add: suffix_def)
qed

lemma reg_match_here_Nil: "\<not> reg_match_here []"
  by (simp add: reg_match_here_def metadata_marker_def)

lemma reg_match_here_append:
  assumes "reg_match_here u" and "reg_match_here t"
  shows "reg_match_here (u @ t)"
proof -
  from assms obtain x y where u: "u = metadata_marker @ x @ ''0029''" and x: "CHR 0x0A \<notin> set x"
    and t: "t = metadata_marker @ y @ ''0029''" and y: "CHR 0x0A \<notin> set y"
    unfolding reg_match_here_iff by blast
  have "u @ t = metadata_marker @ (x @ ''0029'' @ metadata_marker @ y) @ ''0029''"
    by (simp add: u t)
  moreover have "CHR 0x0A \<notin> set (x @ ''0029'' @ metadata_marker @ y)"
    using x y metadata_marker_no_line_feed by simp
  ultimately show ?thesis unfolding reg_match_here_iff by blast
qed

lemma reg_ReplaceAllString_decomp:
  "reg_ReplaceAllString s = s \<or> (\<exists>t. s = reg_ReplaceAllString s @ t \<and> reg_match_here t)"
proof (induction s)
  case Nil
  show ?case by simp
next
  case (Cons c cs)
  show ?case
  proof (cases "reg_match_here (c # cs)")
    case True
    then show ?thesis by simp
  next
    case False
    with Cons show ?thesis by auto
  qed
qed

lemma reg_match_here_Cons_result:
  assumes "reg_match_here (c # reg_ReplaceAllString cs)"
  shows "reg_match_here (c # cs)"
proof -
  from reg_ReplaceAllString_decomp [of cs] show ?thesis
  proof
    assume "reg_ReplaceAllString cs = cs"
    with assms show ?thesis by simp
  next
    assume "\<exists>t. cs = reg_ReplaceAllString cs @ t \<and> reg_match_here t"
    then obtain t where cs: "cs = reg_ReplaceAllString cs @ t" and t: "reg_match_here t" by blast
    from reg_match_here_append [OF assms t] cs show ?thesis by simp
  qed
qed

lemma reg_ReplaceAllString_unchanged:
  "(\<And>p t. s = p @ t \<Longrightarrow> \<not> reg_match_here t) \<Longrightarrow> reg_ReplaceAllString s = s"
proof (induction s)
  case Nil
  show ?case by simp
next
  case (Cons c cs)
  have "\<not> reg_match_here (c # cs)" using Cons.prems [of "[]" "c # cs"] by simp
  moreover have "reg_ReplaceAllString cs = cs"
  proof (rule Cons.IH)
    fix p t assume "cs = p @ t"
    then have "c # cs = (c # p) @ t" by simp
    then show "\<not> reg_match_here t" by (rule Cons.prems)
  qed
  ultimately show ?case by simp
qed

lemma append_eq_long:
  "length a \<le> length b \<Longrightarrow> a @ u = b @ v \<Longrightarrow> a = take (length a) b \<and> u = drop (length a) b @ v"
  by (simp add: append_eq_append_conv_if)

lemma reg_ReplaceAllString_match: "reg_match_here s \<Longrightarrow> reg_ReplaceAllString s = []"
  by (cases s) (simp_all add: reg_match_here_Nil)

lemma reg_match_here_suffix_indep:
  assumes x: "CHR 0x0A \<notin> set x" and y: "CHR 0x0A \<notin> set y"
    and m: "reg_match_here (q @ metadata_marker @ x @ ''0029'')"
  shows "reg_match_here (q @ metadata_marker @ y @ ''0029'')"
proof -
  define w where "w = drop (length metadata_marker) (q @ metadata_marker)"
  from m obtain z where "q @ metadata_marker @ x @ ''0029'' = metadata_marker @ z @ ''0029''"
    and nz: "CHR 0x0A \<notin> set z" unfolding reg_match_here_iff by blast
  then have "metadata_marker @ (z @ ''0029'') = (q @ metadata_marker) @ (x @ ''0029'')"
    by simp
  with append_eq_long [of metadata_marker "q @ metadata_marker" "z @ ''0029''" "x @ ''0029''"]
  have mk: "metadata_marker = take (length metadata_marker) (q @ metadata_marker)"
    and rest: "z @ ''0029'' = w @ x @ ''0029''"
    unfolding w_def by simp_all
  from rest have "z = w @ x" by simp
  with nz have nw: "CHR 0x0A \<notin> set w" by simp
  have "q @ metadata_marker = metadata_marker @ w"
    unfolding w_def using mk append_take_drop_id [of "length metadata_marker" "q @ metadata_marker"]
    by simp
  then have "q @ metadata_marker @ y @ ''0029'' = metadata_marker @ (w @ y) @ ''0029''"
    by simp
  moreover from nw y have "CHR 0x0A \<notin> set (w @ y)" by simp
  ultimately show ?thesis unfolding reg_match_here_iff by blast
qed

lemma reg_ReplaceAllString_length_le:
  "reg_match_here t \<Longrightarrow> length (reg_ReplaceAllString (p @ t)) \<le> length p"
  by (induction p) (simp_all add: reg_ReplaceAllString_match)

lemma hex_string_no_line_feed: "hex_string s \<Longrightarrow> CHR 0x0A \<notin> set s"
  by (auto simp: hex_string_def)

lemma hex_string_append: "hex_string (a @ b) \<longleftrightarrow> hex_string a \<and> hex_string b"
  by (auto simp: hex_string_def)

text \<open>
  The pattern on arbitrary strings: what is matched is the marker, then characters other
  than the line feed, then \<^verbatim>\<open>0029\<close> at the end.
\<close>

lemma reg_ReplaceAllString_no_pattern:
  assumes "\<forall>p x. s = p @ metadata_marker @ x @ ''0029'' \<longrightarrow> CHR 0x0A \<in> set x"
  shows "reg_ReplaceAllString s = s"
proof (rule reg_ReplaceAllString_unchanged)
  fix p t assume "s = p @ t"
  with assms show "\<not> reg_match_here t" unfolding reg_match_here_iff by auto
qed

lemma reg_ReplaceAllString_pattern:
  assumes s: "s = p @ metadata_marker @ x @ ''0029''" and x: "CHR 0x0A \<notin> set x"
  shows "\<exists>p' x'. s = p' @ metadata_marker @ x' @ ''0029'' \<and> CHR 0x0A \<notin> set x' \<and>
           length p' \<le> length p \<and> reg_ReplaceAllString s = p'"
proof -
  from x have m: "reg_match_here (metadata_marker @ x @ ''0029'')"
    unfolding reg_match_here_iff by blast
  from s reg_ReplaceAllString_length_le [OF m, of p]
  have le: "length (reg_ReplaceAllString s) \<le> length p" by simp
  from s have "length p < length s" by (simp add: length_metadata_marker)
  with le have "reg_ReplaceAllString s \<noteq> s" by auto
  with reg_ReplaceAllString_decomp [of s]
  obtain t where "s = reg_ReplaceAllString s @ t" and "reg_match_here t" by blast
  then obtain x' where "s = reg_ReplaceAllString s @ metadata_marker @ x' @ ''0029''"
    and "CHR 0x0A \<notin> set x'" unfolding reg_match_here_iff by auto
  with le show ?thesis by blast
qed

lemma metadata_suffix_no_line_feed:
  assumes x: "CHR 0x0A \<notin> set x" and y: "CHR 0x0A \<notin> set y"
  shows "reg_ReplaceAllString (p @ metadata_marker @ x @ ''0029'')
       = reg_ReplaceAllString (p @ metadata_marker @ y @ ''0029'')"
proof (induction p)
  case Nil
  have "reg_match_here (metadata_marker @ x @ ''0029'')"
    and "reg_match_here (metadata_marker @ y @ ''0029'')"
    using x y unfolding reg_match_here_iff by auto
  then show ?case by (simp add: reg_ReplaceAllString_match)
next
  case (Cons a p)
  have "reg_match_here ((a # p) @ metadata_marker @ x @ ''0029'')
      = reg_match_here ((a # p) @ metadata_marker @ y @ ''0029'')"
    using reg_match_here_suffix_indep [OF x y] reg_match_here_suffix_indep [OF y x] by blast
  with Cons show ?case by simp
qed

text \<open>
  The line feed is why these facts are about bytecode strings: the dot of the pattern does
  not match it, so a string that is not hex can hold the marker and the final
  \<^verbatim>\<open>0029\<close> and still be left as it is.
\<close>

lemma reg_ReplaceAllString_line_feed:
  "reg_ReplaceAllString (''6001'' @ metadata_marker @ [CHR 0x0A] @ ''0029'')
     = ''6001'' @ metadata_marker @ [CHR 0x0A] @ ''0029''"
  by (simp add: metadata_marker_def reg_match_here_def suffix_to_prefix)

text \<open>The definitions that evaluate a call in the small world.\<close>

lemmas small_World_defs =
  GetContract_def small_World_def submission_def FindByAddress_def Update_def two_contracts_def
  stored_record_def solc_Foo_def Foo_source_def slice_from_def

section \<open>Facts about the verification\<close>

text \<open>What a call returns once the comparison is reached.\<close>

lemma VerifyContract_compared:
  assumes "GetContract W db (Address contractData) = Some contract"
    and "\<not> Valid contract"
    and "CompileSolidityString W ''solc'' (SourceCode contractData) = Some compileData"
    and "compileData (''<stdin>:'' @ ContractName contractData) = Some unit"
    and "slice_from 2 (RuntimeCode unit) = Some code"
    and "contract' = contract
           \<lparr>Valid := True,
            Optimization := True,
            ContractName := ContractName contractData,
            SourceCode := Source (Info unit),
            CompilerVersion := ContractInfo.CompilerVersion (Info unit),
            UpdatedAt := time_Now W\<rparr>"
  shows "VerifyContract W db contractData =
     (if reg_ReplaceAllString code = reg_ReplaceAllString (Bytecode contract)
      then (if fst (updateContract W db contract') then Inr contract' else Inl PersistenceFailed,
            snd (updateContract W db contract'))
      else (Inl (BytecodeMismatch (Address contractData)), db))"
proof -
  from assms(5) have "RuntimeCode unit \<noteq> []"
    by (auto simp: slice_from_def)
  with assms show ?thesis
    by (simp add: VerifyContract_def Let_def case_prod_beta PersistenceFailed_def BytecodeMismatch_def)
qed

text \<open>
  Every call either returns an error and the store as it was, or has reached the update
  with the record set as verified.
\<close>

lemma VerifyContract_outcomes:
  obtains (unchanged) e where "VerifyContract W db contractData = (Inl e, db)"
  | (updated) contract compileData unit where
      "GetContract W db (Address contractData) = Some contract"
      "CompileSolidityString W ''solc'' (SourceCode contractData) = Some compileData"
      "compileData (''<stdin>:'' @ ContractName contractData) = Some unit"
      "VerifyContract W db contractData =
         (if fst (updateContract W db (contract
           \<lparr>Valid := True,
            Optimization := True,
            ContractName := ContractName contractData,
            SourceCode := Source (Info unit),
            CompilerVersion := ContractInfo.CompilerVersion (Info unit),
            UpdatedAt := time_Now W\<rparr>))
          then Inr (contract
           \<lparr>Valid := True,
            Optimization := True,
            ContractName := ContractName contractData,
            SourceCode := Source (Info unit),
            CompilerVersion := ContractInfo.CompilerVersion (Info unit),
            UpdatedAt := time_Now W\<rparr>)
          else Inl PersistenceFailed,
          snd (updateContract W db (contract
           \<lparr>Valid := True,
            Optimization := True,
            ContractName := ContractName contractData,
            SourceCode := Source (Info unit),
            CompilerVersion := ContractInfo.CompilerVersion (Info unit),
            UpdatedAt := time_Now W\<rparr>)))"
proof (cases "GetContract W db (Address contractData)")
  case None
  then have "VerifyContract W db contractData = (Inl NotFound, db)"
    by (simp add: VerifyContract_def NotFound_def)
  then show ?thesis by (rule unchanged)
next
  case found: (Some contract)
  show ?thesis
  proof (cases "Valid contract")
    case True
    with found have "VerifyContract W db contractData = (Inl AlreadyVerified, db)"
      by (simp add: VerifyContract_def AlreadyVerified_def)
    then show ?thesis by (rule unchanged)
  next
    case not_valid: False
    show ?thesis
    proof (cases "CompileSolidityString W ''solc'' (SourceCode contractData)")
      case None
      with found not_valid have "VerifyContract W db contractData = (Inl CompilationFailed, db)"
        by (simp add: VerifyContract_def CompilationFailed_def)
      then show ?thesis by (rule unchanged)
    next
      case compiled: (Some compileData)
      show ?thesis
      proof (cases "compileData (''<stdin>:'' @ ContractName contractData)")
        case None
        with found not_valid compiled
        have "VerifyContract W db contractData = (Inl UnknownContractName, db)"
          by (simp add: VerifyContract_def UnknownContractName_def)
        then show ?thesis by (rule unchanged)
      next
        case unit: (Some unit)
        show ?thesis
        proof (cases "slice_from 2 (RuntimeCode unit)")
          case None
          with found not_valid compiled unit
          have "VerifyContract W db contractData =
                  (Inl (if RuntimeCode unit = [] then EmptyBytecode
                        else Panic ''slice bounds out of range''), db)"
            by (simp add: VerifyContract_def EmptyBytecode_def)
          then show ?thesis by (rule unchanged)
        next
          case code: (Some code)
          note compared = VerifyContract_compared [OF found not_valid compiled unit code refl]
          show ?thesis
          proof (cases "reg_ReplaceAllString code = reg_ReplaceAllString (Bytecode contract)")
            case True
            with compared show ?thesis
              by (intro updated [OF found compiled unit]) simp
          next
            case False
            with compared
            have "VerifyContract W db contractData = (Inl (BytecodeMismatch (Address contractData)), db)"
              by simp
            then show ?thesis by (rule unchanged)
          qed
        qed
      qed
    qed
  qed
qed

lemma VerifyContract_store_update:
  "snd (VerifyContract W db contractData) = db \<or>
   (\<exists>contract (unit :: CompiledContract).
      snd (VerifyContract W db contractData) =
      snd (updateContract W db
        (contract
           \<lparr>Valid := True,
            Optimization := True,
            ContractName := ContractName contractData,
            SourceCode := Source (Info unit),
            CompilerVersion := ContractInfo.CompilerVersion (Info unit),
            UpdatedAt := time_Now W\<rparr>)))"
  by (auto simp: VerifyContract_def Let_def case_prod_beta split: option.splits)

lemma VerifyContract_store_cases:
  "snd (VerifyContract W db contractData) = db \<or>
   (\<exists>contract'. Valid contract' \<and>
      snd (VerifyContract W db contractData) = snd (updateContract W db contract'))"
proof -
  from VerifyContract_store_update [of W db contractData] show ?thesis
  proof
    assume "snd (VerifyContract W db contractData) = db"
    then show ?thesis by simp
  next
    assume "\<exists>contract (unit :: CompiledContract).
      snd (VerifyContract W db contractData) =
      snd (updateContract W db
        (contract
           \<lparr>Valid := True,
            Optimization := True,
            ContractName := ContractName contractData,
            SourceCode := Source (Info unit),
            CompilerVersion := ContractInfo.CompilerVersion (Info unit),
            UpdatedAt := time_Now W\<rparr>))"
    then obtain contract and unit :: CompiledContract where s: "snd (VerifyContract W db contractData) =
      snd (updateContract W db
        (contract
           \<lparr>Valid := True,
            Optimization := True,
            ContractName := ContractName contractData,
            SourceCode := Source (Info unit),
            CompilerVersion := ContractInfo.CompilerVersion (Info unit),
            UpdatedAt := time_Now W\<rparr>))" by blast
    have "Valid (contract
           \<lparr>Valid := True,
            Optimization := True,
            ContractName := ContractName contractData,
            SourceCode := Source (Info unit),
            CompilerVersion := ContractInfo.CompilerVersion (Info unit),
            UpdatedAt := time_Now W\<rparr>)" by simp
    with s show ?thesis by blast
  qed
qed

section \<open>Successful verification\<close>

text \<open>
  C1: for a stored record that is not yet valid, when the compilation succeeds, the unit
  under the key of the declared name exists and its runtime code is not empty, the
  canonical form of the compiled code (the runtime code from its third character on, the
  metadata pattern removed) equals the canonical form of the stored bytecode, and the
  store takes the update, \<^verbatim>\<open>VerifyContract\<close> returns the stored record with
  \<open>Valid\<close> and \<open>Optimization\<close> set to true, the declared contract name, the source and
  the compiler version the compiler reported, and the current time. \<open>Optimization\<close> is
  set whatever the compiled unit says: nothing of the unit but its runtime code, source
  and compiler version is read.
\<close>

theorem VerifyContract_success:
  assumes "GetContract W db (Address contractData) = Some contract"
    and "\<not> Valid contract"
    and "CompileSolidityString W ''solc'' (SourceCode contractData) = Some compileData"
    and "compileData (''<stdin>:'' @ ContractName contractData) = Some unit"
    and "RuntimeCode unit \<noteq> []"
    and "slice_from 2 (RuntimeCode unit) = Some code"
    and "reg_ReplaceAllString code = reg_ReplaceAllString (Bytecode contract)"
    and "contract' = contract
           \<lparr>Valid := True,
            Optimization := True,
            ContractName := ContractName contractData,
            SourceCode := Source (Info unit),
            CompilerVersion := ContractInfo.CompilerVersion (Info unit),
            UpdatedAt := time_Now W\<rparr>"
    and "fst (updateContract W db contract')"
  shows "VerifyContract W db contractData = (Inr contract', snd (updateContract W db contract'))"
  using assms by (simp add: VerifyContract_def Let_def case_prod_beta)

theorem VerifyContract_success_witness:
  "VerifyContract (small_World True ''0x600100a165627a7a72305820aa0029'' None) two_contracts
     (submission ''0x01'' ''Foo'' Foo_source)
   = (Inr \<lparr>Address = ''0x01'', Bytecode = ''6001'', Valid = True, Optimization = True,
            ContractName = ''Foo'', SourceCode = Foo_source,
            CompilerVersion = ''0.4.24+commit.e67f0147'', UpdatedAt = 1541116800\<rparr>,
      snd (Update (\<lambda>store record. True) two_contracts
        \<lparr>Address = ''0x01'', Bytecode = ''6001'', Valid = True, Optimization = True,
            ContractName = ''Foo'', SourceCode = Foo_source,
            CompilerVersion = ''0.4.24+commit.e67f0147'', UpdatedAt = 1541116800\<rparr>))"
proof -
  let ?W = "small_World True ''0x600100a165627a7a72305820aa0029'' None"
  let ?cd = "submission ''0x01'' ''Foo'' Foo_source"
  let ?u = "\<lparr>RuntimeCode = ''0x600100a165627a7a72305820aa0029'',
         Info = \<lparr>Source = Foo_source, CompilerVersion = ''0.4.24+commit.e67f0147''\<rparr>\<rparr>"
  let ?c' = "\<lparr>Address = ''0x01'', Bytecode = ''6001'', Valid = True, Optimization = True,
            ContractName = ''Foo'', SourceCode = Foo_source,
            CompilerVersion = ''0.4.24+commit.e67f0147'', UpdatedAt = 1541116800\<rparr>"
  have 1: "GetContract ?W two_contracts (Address ?cd) = Some (stored_record ''0x01'' False)"
    by (simp add: GetContract_def small_World_def submission_def FindByAddress_def two_contracts_def)
  have 2: "\<not> Valid (stored_record ''0x01'' False)"
    by (simp add: stored_record_def)
  have 3: "CompileSolidityString ?W ''solc'' (SourceCode ?cd) = Some [''<stdin>:Foo'' \<mapsto> ?u]"
    by (simp add: small_World_def submission_def solc_Foo_def)
  have 4: "[''<stdin>:Foo'' \<mapsto> ?u] (''<stdin>:'' @ ContractName ?cd) = Some ?u"
    by (simp add: submission_def)
  have 5: "RuntimeCode ?u \<noteq> []"
    by simp
  have 6: "slice_from 2 (RuntimeCode ?u) = Some ''600100a165627a7a72305820aa0029''"
    by (simp add: slice_from_def)
  have 7: "reg_ReplaceAllString ''600100a165627a7a72305820aa0029''
         = reg_ReplaceAllString (Bytecode (stored_record ''0x01'' False))"
    by (simp add: stored_record_def reg_match_here_def metadata_marker_def suffix_to_prefix)
  have 8: "?c' = (stored_record ''0x01'' False)
           \<lparr>Valid := True,
            Optimization := True,
            ContractName := ContractName ?cd,
            SourceCode := Source (Info ?u),
            CompilerVersion := ContractInfo.CompilerVersion (Info ?u),
            UpdatedAt := time_Now ?W\<rparr>"
    by (simp add: stored_record_def submission_def small_World_def)
  have 9: "fst (updateContract ?W two_contracts ?c')"
    by (simp add: small_World_def Update_def)
  from VerifyContract_success [OF 1 2 3 4 5 6 7 8 9] show ?thesis
    by (simp add: small_World_def)
qed

section \<open>Bytecode mismatch\<close>

text \<open>
  C8: whenever the comparison is reached (the record is found and not yet valid, the
  compilation succeeds, the unit of the declared name exists and its runtime code has a
  canonical form) and the canonical form of the compiled code differs from the canonical
  form of the stored bytecode, \<^verbatim>\<open>VerifyContract\<close> fails with the error
  \<open>BytecodeMismatch\<close>, whose message ends with the submitted address, and leaves the
  store as it was.
\<close>

theorem VerifyContract_mismatch:
  assumes "GetContract W db (Address contractData) = Some contract"
    and "\<not> Valid contract"
    and "CompileSolidityString W ''solc'' (SourceCode contractData) = Some compileData"
    and "compileData (''<stdin>:'' @ ContractName contractData) = Some unit"
    and "slice_from 2 (RuntimeCode unit) = Some code"
    and "reg_ReplaceAllString code \<noteq> reg_ReplaceAllString (Bytecode contract)"
  shows "VerifyContract W db contractData = (Inl (BytecodeMismatch (Address contractData)), db)
       \<and> (\<exists>msg. fst (VerifyContract W db contractData) = Inl (Error (msg @ Address contractData)))"
proof -
  from assms(5) have "RuntimeCode unit \<noteq> []"
    by (auto simp: slice_from_def)
  with assms have "VerifyContract W db contractData = (Inl (BytecodeMismatch (Address contractData)), db)"
    by (simp add: VerifyContract_def Let_def BytecodeMismatch_def)
  then show ?thesis
    by (auto simp: BytecodeMismatch_def)
qed

theorem VerifyContract_mismatch_witness:
  "VerifyContract (small_World True ''0x6002'' None) two_contracts (submission ''0x01'' ''Foo'' Foo_source)
     = (Inl (Error ''the compiled result does not match the input creation bytecode located at 0x01''),
        two_contracts)"
proof -
  let ?W = "small_World True ''0x6002'' None"
  let ?cd = "submission ''0x01'' ''Foo'' Foo_source"
  let ?u = "\<lparr>RuntimeCode = ''0x6002'',
         Info = \<lparr>Source = Foo_source, CompilerVersion = ''0.4.24+commit.e67f0147''\<rparr>\<rparr>"
  have 1: "GetContract ?W two_contracts (Address ?cd) = Some (stored_record ''0x01'' False)"
    by (simp add: small_World_defs)
  have 2: "\<not> Valid (stored_record ''0x01'' False)"
    by (simp add: stored_record_def)
  have 3: "CompileSolidityString ?W ''solc'' (SourceCode ?cd) = Some [''<stdin>:Foo'' \<mapsto> ?u]"
    by (simp add: small_World_def submission_def solc_Foo_def)
  have 4: "[''<stdin>:Foo'' \<mapsto> ?u] (''<stdin>:'' @ ContractName ?cd) = Some ?u"
    by (simp add: submission_def)
  have 5: "slice_from 2 (RuntimeCode ?u) = Some ''6002''"
    by (simp add: slice_from_def)
  have 6: "reg_ReplaceAllString ''6002'' \<noteq> reg_ReplaceAllString (Bytecode (stored_record ''0x01'' False))"
    by (simp add: stored_record_def reg_match_here_def metadata_marker_def)
  from VerifyContract_mismatch [OF 1 2 3 4 5 6] show ?thesis
    by (simp add: BytecodeMismatch_def submission_def)
qed

section \<open>The order of the checks\<close>

text \<open>
  C5: \<^verbatim>\<open>VerifyContract\<close> returns the earliest applicable error. No record for the
  address: \<open>NotFound\<close>, whatever the compiler would answer (the result is the same for
  every compiler, so the compiler is not asked). A valid record: \<open>AlreadyVerified\<close>.
  Then \<open>CompilationFailed\<close> when the compiler returns an error, \<open>UnknownContractName\<close>
  when the key \<^verbatim>\<open><stdin>:\<close> followed by the declared name is not in the compiled
  output, and \<open>EmptyBytecode\<close> when the runtime code of that unit is the empty string.
\<close>

theorem VerifyContract_error_order:
  "(GetContract W db (Address contractData) = None \<longrightarrow>
      VerifyContract W db contractData = (Inl NotFound, db) \<and>
      (\<forall>solc. VerifyContract (W\<lparr>CompileSolidityString := solc\<rparr>) db contractData = (Inl NotFound, db)))
 \<and> (\<forall>contract. GetContract W db (Address contractData) = Some contract \<and> Valid contract \<longrightarrow>
      VerifyContract W db contractData = (Inl AlreadyVerified, db))
 \<and> (\<forall>contract. GetContract W db (Address contractData) = Some contract \<and> \<not> Valid contract \<and>
      CompileSolidityString W ''solc'' (SourceCode contractData) = None \<longrightarrow>
      VerifyContract W db contractData = (Inl CompilationFailed, db))
 \<and> (\<forall>contract compileData. GetContract W db (Address contractData) = Some contract \<and> \<not> Valid contract \<and>
      CompileSolidityString W ''solc'' (SourceCode contractData) = Some compileData \<and>
      compileData (''<stdin>:'' @ ContractName contractData) = None \<longrightarrow>
      VerifyContract W db contractData = (Inl UnknownContractName, db))
 \<and> (\<forall>contract compileData unit. GetContract W db (Address contractData) = Some contract \<and> \<not> Valid contract \<and>
      CompileSolidityString W ''solc'' (SourceCode contractData) = Some compileData \<and>
      compileData (''<stdin>:'' @ ContractName contractData) = Some unit \<and>
      RuntimeCode unit = [] \<longrightarrow>
      VerifyContract W db contractData = (Inl EmptyBytecode, db))"
  by (simp add: VerifyContract_def GetContract_def Let_def NotFound_def AlreadyVerified_def
      CompilationFailed_def UnknownContractName_def EmptyBytecode_def)

theorem VerifyContract_error_order_witness:
  "VerifyContract (small_World True ''0x6001'' None) two_contracts (submission ''0x03'' ''Foo'' Foo_source)
     = (Inl NotFound, two_contracts)
 \<and> VerifyContract (small_World True ''0x6001'' None) two_contracts (submission ''0x02'' ''Foo'' Foo_source)
     = (Inl AlreadyVerified, two_contracts)
 \<and> VerifyContract (small_World True ''0x6001'' None) two_contracts (submission ''0x01'' ''Foo'' ''contract {'')
     = (Inl CompilationFailed, two_contracts)
 \<and> VerifyContract (small_World True ''0x6001'' None) two_contracts (submission ''0x01'' ''Bar'' Foo_source)
     = (Inl UnknownContractName, two_contracts)
 \<and> VerifyContract (small_World True [] None) two_contracts (submission ''0x01'' ''Foo'' Foo_source)
     = (Inl EmptyBytecode, two_contracts)"
proof -
  let ?W = "small_World True ''0x6001'' None"
  let ?E = "small_World True [] None"
  let ?u = "\<lambda>code. \<lparr>RuntimeCode = code,
         Info = \<lparr>Source = Foo_source, CompilerVersion = ''0.4.24+commit.e67f0147''\<rparr>\<rparr>"
  have a: "GetContract ?W two_contracts (Address (submission ''0x03'' ''Foo'' Foo_source)) = None"
    by (simp add: small_World_defs)
  have b: "GetContract ?W two_contracts (Address (submission ''0x02'' ''Foo'' Foo_source))
             = Some (stored_record ''0x02'' True) \<and> Valid (stored_record ''0x02'' True)"
    by (simp add: small_World_defs)
  have c: "GetContract ?W two_contracts (Address (submission ''0x01'' ''Foo'' ''contract {''))
             = Some (stored_record ''0x01'' False) \<and> \<not> Valid (stored_record ''0x01'' False)
         \<and> CompileSolidityString ?W ''solc'' (SourceCode (submission ''0x01'' ''Foo'' ''contract {'')) = None"
    by (simp add: small_World_defs)
  have d: "GetContract ?W two_contracts (Address (submission ''0x01'' ''Bar'' Foo_source))
             = Some (stored_record ''0x01'' False) \<and> \<not> Valid (stored_record ''0x01'' False)
         \<and> CompileSolidityString ?W ''solc'' (SourceCode (submission ''0x01'' ''Bar'' Foo_source))
             = Some [''<stdin>:Foo'' \<mapsto> ?u ''0x6001'']
         \<and> [''<stdin>:Foo'' \<mapsto> ?u ''0x6001'']
              (''<stdin>:'' @ ContractName (submission ''0x01'' ''Bar'' Foo_source)) = None"
    by (simp add: small_World_defs)
  have e: "GetContract ?E two_contracts (Address (submission ''0x01'' ''Foo'' Foo_source))
             = Some (stored_record ''0x01'' False) \<and> \<not> Valid (stored_record ''0x01'' False)
         \<and> CompileSolidityString ?E ''solc'' (SourceCode (submission ''0x01'' ''Foo'' Foo_source))
             = Some [''<stdin>:Foo'' \<mapsto> ?u []]
         \<and> [''<stdin>:Foo'' \<mapsto> ?u []]
              (''<stdin>:'' @ ContractName (submission ''0x01'' ''Foo'' Foo_source)) = Some (?u [])
         \<and> RuntimeCode (?u []) = []"
    by (simp add: small_World_defs)
  from a VerifyContract_error_order [of ?W two_contracts "submission ''0x03'' ''Foo'' Foo_source"]
  have A: "VerifyContract ?W two_contracts (submission ''0x03'' ''Foo'' Foo_source) = (Inl NotFound, two_contracts)"
    by blast
  from b VerifyContract_error_order [of ?W two_contracts "submission ''0x02'' ''Foo'' Foo_source"]
  have B: "VerifyContract ?W two_contracts (submission ''0x02'' ''Foo'' Foo_source) = (Inl AlreadyVerified, two_contracts)"
    by blast
  from c VerifyContract_error_order [of ?W two_contracts "submission ''0x01'' ''Foo'' ''contract {''"]
  have C: "VerifyContract ?W two_contracts (submission ''0x01'' ''Foo'' ''contract {'') = (Inl CompilationFailed, two_contracts)"
    by blast
  from d VerifyContract_error_order [of ?W two_contracts "submission ''0x01'' ''Bar'' Foo_source"]
  have D: "VerifyContract ?W two_contracts (submission ''0x01'' ''Bar'' Foo_source) = (Inl UnknownContractName, two_contracts)"
    by blast
  from e VerifyContract_error_order [of ?E two_contracts "submission ''0x01'' ''Foo'' Foo_source"]
  have E: "VerifyContract ?E two_contracts (submission ''0x01'' ''Foo'' Foo_source) = (Inl EmptyBytecode, two_contracts)"
    by blast
  from A B C D E show ?thesis by blast
qed

section \<open>The guard on the runtime code and the removal of the prefix\<close>

text \<open>
  C10: when the record is found and not yet valid, the compilation succeeds and the unit
  of the declared name exists, \<^verbatim>\<open>VerifyContract\<close> returns \<open>EmptyBytecode\<close> exactly
  when the runtime code is the empty string. A runtime code of length one makes the slice
  \<^verbatim>\<open>RuntimeCode[2:]\<close> go out of range: the call panics. A runtime code of length two
  or more loses its first two characters, whatever they are, and the outcome is decided by
  comparing the canonical form of the rest with that of the stored bytecode.
\<close>

theorem VerifyContract_prefix_removal:
  assumes "GetContract W db (Address contractData) = Some contract"
    and "\<not> Valid contract"
    and "CompileSolidityString W ''solc'' (SourceCode contractData) = Some compileData"
    and "compileData (''<stdin>:'' @ ContractName contractData) = Some unit"
    and "contract' = contract
           \<lparr>Valid := True,
            Optimization := True,
            ContractName := ContractName contractData,
            SourceCode := Source (Info unit),
            CompilerVersion := ContractInfo.CompilerVersion (Info unit),
            UpdatedAt := time_Now W\<rparr>"
  shows "(VerifyContract W db contractData = (Inl EmptyBytecode, db)) = (RuntimeCode unit = [])
       \<and> (length (RuntimeCode unit) = 1 \<longrightarrow>
            VerifyContract W db contractData = (Inl (Panic ''slice bounds out of range''), db))
       \<and> (2 \<le> length (RuntimeCode unit) \<longrightarrow>
            VerifyContract W db contractData =
              (if reg_ReplaceAllString (drop 2 (RuntimeCode unit)) = reg_ReplaceAllString (Bytecode contract)
               then (if fst (updateContract W db contract') then Inr contract' else Inl PersistenceFailed,
                     snd (updateContract W db contract'))
               else (Inl (BytecodeMismatch (Address contractData)), db)))"
proof -
  have empty: "VerifyContract W db contractData = (Inl EmptyBytecode, db)"
    if "RuntimeCode unit = []"
    using that assms(1-4) by (simp add: VerifyContract_def EmptyBytecode_def)
  have one: "VerifyContract W db contractData = (Inl (Panic ''slice bounds out of range''), db)"
    if "length (RuntimeCode unit) = 1"
  proof -
    from that have "RuntimeCode unit \<noteq> []" and "slice_from 2 (RuntimeCode unit) = None"
      by (auto simp: slice_from_def)
    with assms(1-4) show ?thesis by (simp add: VerifyContract_def)
  qed
  have two: "VerifyContract W db contractData =
              (if reg_ReplaceAllString (drop 2 (RuntimeCode unit)) = reg_ReplaceAllString (Bytecode contract)
               then (if fst (updateContract W db contract') then Inr contract' else Inl PersistenceFailed,
                     snd (updateContract W db contract'))
               else (Inl (BytecodeMismatch (Address contractData)), db))"
    if "2 \<le> length (RuntimeCode unit)"
  proof -
    from that have "slice_from 2 (RuntimeCode unit) = Some (drop 2 (RuntimeCode unit))"
      by (simp add: slice_from_def)
    from VerifyContract_compared [OF assms(1-4) this assms(5)] show ?thesis .
  qed
  have "VerifyContract W db contractData \<noteq> (Inl EmptyBytecode, db)" if "RuntimeCode unit \<noteq> []"
  proof (cases "length (RuntimeCode unit) = 1")
    case True
    from one [OF True] show ?thesis by (simp add: EmptyBytecode_def)
  next
    case False
    with that have "2 \<le> length (RuntimeCode unit)"
      by (cases "RuntimeCode unit") (auto simp: Suc_le_eq)
    from two [OF this] show ?thesis
      by (simp add: EmptyBytecode_def PersistenceFailed_def BytecodeMismatch_def)
  qed
  with empty one two show ?thesis by blast
qed

theorem VerifyContract_prefix_removal_witness:
  "VerifyContract (small_World True [] None) two_contracts (submission ''0x01'' ''Foo'' Foo_source)
     = (Inl EmptyBytecode, two_contracts)
 \<and> VerifyContract (small_World True ''0'' None) two_contracts (submission ''0x01'' ''Foo'' Foo_source)
     = (Inl (Panic ''slice bounds out of range''), two_contracts)
 \<and> fst (VerifyContract (small_World True ''xx6001'' None) two_contracts
          (submission ''0x01'' ''Foo'' Foo_source))
     = Inr \<lparr>Address = ''0x01'', Bytecode = ''6001'', Valid = True, Optimization = True,
            ContractName = ''Foo'', SourceCode = Foo_source,
            CompilerVersion = ''0.4.24+commit.e67f0147'', UpdatedAt = 1541116800\<rparr>"
proof -
  let ?cd = "submission ''0x01'' ''Foo'' Foo_source"
  let ?u = "\<lambda>code. \<lparr>RuntimeCode = code,
         Info = \<lparr>Source = Foo_source, CompilerVersion = ''0.4.24+commit.e67f0147''\<rparr>\<rparr>"
  let ?c' = "\<lparr>Address = ''0x01'', Bytecode = ''6001'', Valid = True, Optimization = True,
            ContractName = ''Foo'', SourceCode = Foo_source,
            CompilerVersion = ''0.4.24+commit.e67f0147'', UpdatedAt = 1541116800\<rparr>"
  have 1: "GetContract (small_World True code None) two_contracts (Address ?cd)
             = Some (stored_record ''0x01'' False)" for code
    by (simp add: small_World_defs)
  have 2: "\<not> Valid (stored_record ''0x01'' False)"
    by (simp add: stored_record_def)
  have 3: "CompileSolidityString (small_World True code None) ''solc'' (SourceCode ?cd)
             = Some [''<stdin>:Foo'' \<mapsto> ?u code]" for code
    by (simp add: small_World_def submission_def solc_Foo_def)
  have 4: "[''<stdin>:Foo'' \<mapsto> ?u code] (''<stdin>:'' @ ContractName ?cd) = Some (?u code)" for code
    by (simp add: submission_def)
  have 5: "?c' = (stored_record ''0x01'' False)
           \<lparr>Valid := True,
            Optimization := True,
            ContractName := ContractName ?cd,
            SourceCode := Source (Info (?u code)),
            CompilerVersion := ContractInfo.CompilerVersion (Info (?u code)),
            UpdatedAt := time_Now (small_World True code None)\<rparr>" for code
    by (simp add: stored_record_def submission_def small_World_def)
  note T = VerifyContract_prefix_removal
  have A: "VerifyContract (small_World True [] None) two_contracts ?cd = (Inl EmptyBytecode, two_contracts)"
    using T [OF 1 [of "[]"] 2 3 [of "[]"] 4 [of "[]"] 5 [of "[]"]] by simp
  have B: "VerifyContract (small_World True ''0'' None) two_contracts ?cd
     = (Inl (Panic ''slice bounds out of range''), two_contracts)"
    using T [OF 1 [of "''0''"] 2 3 [of "''0''"] 4 [of "''0''"] 5 [of "''0''"]] by simp
  have "reg_ReplaceAllString (drop 2 ''xx6001'')
      = reg_ReplaceAllString (Bytecode (stored_record ''0x01'' False))"
    by (simp add: stored_record_def reg_match_here_def metadata_marker_def)
  moreover have "fst (updateContract (small_World True ''xx6001'' None) two_contracts ?c')"
    by (simp add: small_World_def Update_def)
  ultimately have C: "fst (VerifyContract (small_World True ''xx6001'' None) two_contracts ?cd) = Inr ?c'"
    using T [OF 1 [of "''xx6001''"] 2 3 [of "''xx6001''"] 4 [of "''xx6001''"] 5 [of "''xx6001''"]]
    by simp
  from A B C show ?thesis by blast
qed

section \<open>Canonical forms and their comparison\<close>

text \<open>
  C2: before the comparison \<^verbatim>\<open>VerifyContract\<close> removes the first two characters
  from the compiled runtime code only, and removes from both the compiled code and the
  stored bytecode the trailing metadata pattern: the marker
  \<^verbatim>\<open>00a165627a7a72305820\<close> followed by any characters, up to and including
  \<^verbatim>\<open>0029\<close> at the end of the string. On a bytecode string, which is hex: a string
  that does not contain the pattern is left unchanged, and from a string that ends with
  the pattern it is removed, from the leftmost such marker on (so what is removed is at
  least as long as any such pattern the string ends with). The two canonical forms are
  compared by equality of strings: the call fails with \<open>BytecodeMismatch\<close> exactly when
  they differ.
\<close>

theorem canonical_forms:
  "(\<forall>contract compileData unit.
      GetContract W db (Address contractData) = Some contract \<and> \<not> Valid contract \<and>
      CompileSolidityString W ''solc'' (SourceCode contractData) = Some compileData \<and>
      compileData (''<stdin>:'' @ ContractName contractData) = Some unit \<and>
      2 \<le> length (RuntimeCode unit) \<longrightarrow>
      (VerifyContract W db contractData = (Inl (BytecodeMismatch (Address contractData)), db))
        = (reg_ReplaceAllString (drop 2 (RuntimeCode unit)) \<noteq> reg_ReplaceAllString (Bytecode contract)))
 \<and> (hex_string s \<and> (\<forall>p x. s \<noteq> p @ metadata_marker @ x @ ''0029'') \<longrightarrow>
      reg_ReplaceAllString s = s)
 \<and> (\<forall>p x. hex_string s \<and> s = p @ metadata_marker @ x @ ''0029'' \<longrightarrow>
      (\<exists>p' x'. s = p' @ metadata_marker @ x' @ ''0029'' \<and>
         length p' \<le> length p \<and> reg_ReplaceAllString s = p'))"
proof (intro conjI allI impI)
  fix contract compileData unit
  assume a: "GetContract W db (Address contractData) = Some contract \<and> \<not> Valid contract \<and>
      CompileSolidityString W ''solc'' (SourceCode contractData) = Some compileData \<and>
      compileData (''<stdin>:'' @ ContractName contractData) = Some unit \<and>
      2 \<le> length (RuntimeCode unit)"
  then have "RuntimeCode unit \<noteq> []" by auto
  with a show "(VerifyContract W db contractData = (Inl (BytecodeMismatch (Address contractData)), db))
        = (reg_ReplaceAllString (drop 2 (RuntimeCode unit)) \<noteq> reg_ReplaceAllString (Bytecode contract))"
    by (simp add: VerifyContract_def Let_def slice_from_def BytecodeMismatch_def case_prod_beta)
next
  assume "hex_string s \<and> (\<forall>p x. s \<noteq> p @ metadata_marker @ x @ ''0029'')"
  then have "\<forall>p x. s = p @ metadata_marker @ x @ ''0029'' \<longrightarrow> CHR 0x0A \<in> set x"
    by blast
  then show "reg_ReplaceAllString s = s"
    by (rule reg_ReplaceAllString_no_pattern)
next
  fix p x
  assume a: "hex_string s \<and> s = p @ metadata_marker @ x @ ''0029''"
  then have "hex_string (p @ metadata_marker @ x @ ''0029'')"
    by auto
  then have "hex_string x"
    by (simp add: hex_string_append)
  then have "CHR 0x0A \<notin> set x"
    by (rule hex_string_no_line_feed)
  with a reg_ReplaceAllString_pattern [of s p x]
  show "\<exists>p' x'. s = p' @ metadata_marker @ x' @ ''0029'' \<and>
         length p' \<le> length p \<and> reg_ReplaceAllString s = p'"
    by blast
qed

theorem canonical_forms_witness:
  "VerifyContract (small_World True ''0x6002'' None) two_contracts (submission ''0x01'' ''Foo'' Foo_source)
     = (Inl (BytecodeMismatch ''0x01''), two_contracts)
 \<and> reg_ReplaceAllString ''6001'' = ''6001''
 \<and> (\<exists>p' x'. ''6001'' @ metadata_marker @ ''aa'' @ ''0029'' = p' @ metadata_marker @ x' @ ''0029'' \<and>
        length p' \<le> length ''6001'' \<and>
        reg_ReplaceAllString (''6001'' @ metadata_marker @ ''aa'' @ ''0029'') = p')
 \<and> reg_ReplaceAllString (''6001'' @ metadata_marker @ ''aa'' @ ''0029'') = ''6001''"
proof -
  let ?W = "small_World True ''0x6002'' None"
  let ?cd = "submission ''0x01'' ''Foo'' Foo_source"
  let ?u = "\<lparr>RuntimeCode = ''0x6002'',
         Info = \<lparr>Source = Foo_source, CompilerVersion = ''0.4.24+commit.e67f0147''\<rparr>\<rparr>"
  let ?s = "''6001'' @ metadata_marker @ ''aa'' @ ''0029''"
  have 1: "GetContract ?W two_contracts (Address ?cd) = Some (stored_record ''0x01'' False)
         \<and> \<not> Valid (stored_record ''0x01'' False)
         \<and> CompileSolidityString ?W ''solc'' (SourceCode ?cd) = Some [''<stdin>:Foo'' \<mapsto> ?u]
         \<and> [''<stdin>:Foo'' \<mapsto> ?u] (''<stdin>:'' @ ContractName ?cd) = Some ?u
         \<and> 2 \<le> length (RuntimeCode ?u)"
    by (simp add: small_World_defs)
  have 2: "reg_ReplaceAllString (drop 2 (RuntimeCode ?u))
             \<noteq> reg_ReplaceAllString (Bytecode (stored_record ''0x01'' False))"
    by (simp add: stored_record_def reg_match_here_def metadata_marker_def)
  from canonical_forms [of ?W two_contracts ?cd] 1 2
  have "VerifyContract ?W two_contracts ?cd = (Inl (BytecodeMismatch (Address ?cd)), two_contracts)"
    by blast
  then have A: "VerifyContract ?W two_contracts ?cd = (Inl (BytecodeMismatch ''0x01''), two_contracts)"
    by (simp add: submission_def)
  have hex1: "hex_string ''6001''"
    by (simp add: hex_string_def)
  have 3: "\<forall>p x. ''6001'' \<noteq> p @ metadata_marker @ x @ ''0029''"
  proof (intro allI notI)
    fix p x :: string
    assume "''6001'' = p @ metadata_marker @ x @ ''0029''"
    then have "length ''6001'' = length (p @ metadata_marker @ x @ ''0029'')" by simp
    then show False by (simp add: length_metadata_marker)
  qed
  from canonical_forms [of ?W two_contracts ?cd "''6001''"] hex1 3
  have B: "reg_ReplaceAllString ''6001'' = ''6001''"
    by blast
  have hex2: "hex_string ?s"
    by (simp add: hex_string_def metadata_marker_def)
  have 4: "?s = ''6001'' @ metadata_marker @ ''aa'' @ ''0029''"
    by simp
  from canonical_forms [of ?W two_contracts ?cd ?s] hex2 4
  have C: "\<exists>p' x'. ?s = p' @ metadata_marker @ x' @ ''0029'' \<and>
        length p' \<le> length ''6001'' \<and> reg_ReplaceAllString ?s = p'"
    by blast
  have D: "reg_ReplaceAllString ?s = ''6001''"
    by (simp add: metadata_marker_def reg_match_here_def suffix_to_prefix)
  from A B C D show ?thesis by blast
qed

section \<open>Verification is write-once\<close>

text \<open>
  C3: for a stored record that is valid, \<^verbatim>\<open>VerifyContract\<close> fails with
  \<open>AlreadyVerified\<close>, whatever source and contract name are submitted, and leaves the
  store as it was. A call changes the store by one update at most, and the record it
  hands to the update has \<open>Valid\<close> set. So in a store where an update affects what is
  found under an address only by putting the updated record there, every record that was
  valid before a call is valid after it.
\<close>

theorem VerifyContract_write_once:
  "(\<forall>contract. GetContract W db (Address contractData) = Some contract \<and> Valid contract \<longrightarrow>
      VerifyContract W db contractData = (Inl AlreadyVerified, db))
 \<and> (snd (VerifyContract W db contractData) = db \<or>
      (\<exists>contract'. Valid contract' \<and>
         snd (VerifyContract W db contractData) = snd (updateContract W db contract')))
 \<and> ((\<forall>c a. getContract W (snd (updateContract W db c)) a = getContract W db a \<or>
            getContract W (snd (updateContract W db c)) a = Some c) \<longrightarrow>
      (\<forall>a r. getContract W db a = Some r \<and> Valid r \<longrightarrow>
         (\<exists>r'. getContract W (snd (VerifyContract W db contractData)) a = Some r' \<and> Valid r')))"
proof (intro conjI allI impI)
  fix contract
  assume "GetContract W db (Address contractData) = Some contract \<and> Valid contract"
  then show "VerifyContract W db contractData = (Inl AlreadyVerified, db)"
    by (simp add: VerifyContract_def AlreadyVerified_def)
next
  show "snd (VerifyContract W db contractData) = db \<or>
      (\<exists>contract'. Valid contract' \<and>
         snd (VerifyContract W db contractData) = snd (updateContract W db contract'))"
    by (rule VerifyContract_store_cases)
next
  fix a r
  assume law: "\<forall>c a. getContract W (snd (updateContract W db c)) a = getContract W db a \<or>
            getContract W (snd (updateContract W db c)) a = Some c"
    and r: "getContract W db a = Some r \<and> Valid r"
  from VerifyContract_store_cases [of W db contractData]
  show "\<exists>r'. getContract W (snd (VerifyContract W db contractData)) a = Some r' \<and> Valid r'"
  proof
    assume "snd (VerifyContract W db contractData) = db"
    with r show ?thesis by simp
  next
    assume "\<exists>contract'. Valid contract' \<and>
      snd (VerifyContract W db contractData) = snd (updateContract W db contract')"
    then obtain c' where v: "Valid c'"
      and s: "snd (VerifyContract W db contractData) = snd (updateContract W db c')" by blast
    from law have "getContract W (snd (updateContract W db c')) a = getContract W db a \<or>
            getContract W (snd (updateContract W db c')) a = Some c'" by blast
    with r v s show ?thesis by auto
  qed
qed

theorem VerifyContract_write_once_witness:
  "VerifyContract (small_World True ''0x6001'' None) two_contracts (submission ''0x02'' ''Foo'' Foo_source)
     = (Inl AlreadyVerified, two_contracts)
 \<and> (\<exists>r'. getContract (small_World True ''0x6001'' None)
        (snd (VerifyContract (small_World True ''0x6001'' None) two_contracts
               (submission ''0x01'' ''Foo'' Foo_source))) ''0x02'' = Some r' \<and> Valid r')
 \<and> fst (VerifyContract (small_World True ''0x6001'' None) two_contracts
               (submission ''0x01'' ''Foo'' Foo_source)) \<noteq> Inl AlreadyVerified"
proof -
  let ?W = "small_World True ''0x6001'' None"
  have 1: "GetContract ?W two_contracts (Address (submission ''0x02'' ''Foo'' Foo_source))
             = Some (stored_record ''0x02'' True) \<and> Valid (stored_record ''0x02'' True)"
    by (simp add: small_World_defs)
  have 2: "\<forall>c a. getContract ?W (snd (updateContract ?W two_contracts c)) a = getContract ?W two_contracts a \<or>
            getContract ?W (snd (updateContract ?W two_contracts c)) a = Some c"
    by (simp add: small_World_def FindByAddress_def Update_def)
  have 3: "getContract ?W two_contracts ''0x02'' = Some (stored_record ''0x02'' True)
           \<and> Valid (stored_record ''0x02'' True)"
    by (simp add: small_World_defs)
  have 4: "fst (VerifyContract ?W two_contracts (submission ''0x01'' ''Foo'' Foo_source)) \<noteq> Inl AlreadyVerified"
    by (simp add: VerifyContract_def small_World_defs Let_def reg_match_here_def metadata_marker_def)
  from 1 VerifyContract_write_once [of ?W two_contracts "submission ''0x02'' ''Foo'' Foo_source"]
  have A: "VerifyContract ?W two_contracts (submission ''0x02'' ''Foo'' Foo_source)
     = (Inl AlreadyVerified, two_contracts)" by blast
  from 2 3 VerifyContract_write_once [of ?W two_contracts "submission ''0x01'' ''Foo'' Foo_source"]
  have B: "\<exists>r'. getContract ?W (snd (VerifyContract ?W two_contracts
               (submission ''0x01'' ''Foo'' Foo_source))) ''0x02'' = Some r' \<and> Valid r'" by blast
  from A B 4 show ?thesis by blast
qed

section \<open>One update, on the success path\<close>

text \<open>
  C4: \<^verbatim>\<open>VerifyContract\<close> changes the store by one update at most. When it returns
  an error, either the store was not touched, or the error is \<open>PersistenceFailed\<close> and
  the store is what the rejected update left; in a store where a rejected update changes
  nothing, every error leaves the store unchanged. When it returns a record, the store is
  the result of one accepted update with that record, which is the stored record with
  \<open>Valid\<close>, \<open>Optimization\<close>, \<open>ContractName\<close>, \<open>SourceCode\<close>,
  \<open>CompilerVersion\<close> and \<open>UpdatedAt\<close> all set.
\<close>

theorem VerifyContract_single_update:
  "(\<forall>e. fst (VerifyContract W db contractData) = Inl e \<longrightarrow>
      snd (VerifyContract W db contractData) = db \<or>
      e = PersistenceFailed \<and>
      (\<exists>contract'. updateContract W db contract' = (False, snd (VerifyContract W db contractData))))
 \<and> ((\<forall>c. \<not> fst (updateContract W db c) \<longrightarrow> snd (updateContract W db c) = db) \<longrightarrow>
      (\<forall>e. fst (VerifyContract W db contractData) = Inl e \<longrightarrow>
         snd (VerifyContract W db contractData) = db))
 \<and> (\<forall>contract'. fst (VerifyContract W db contractData) = Inr contract' \<longrightarrow>
      updateContract W db contract' = (True, snd (VerifyContract W db contractData)) \<and>
      (\<exists>contract compileData unit.
         GetContract W db (Address contractData) = Some contract \<and>
         CompileSolidityString W ''solc'' (SourceCode contractData) = Some compileData \<and>
         compileData (''<stdin>:'' @ ContractName contractData) = Some unit \<and>
         contract' = contract
           \<lparr>Valid := True,
            Optimization := True,
            ContractName := ContractName contractData,
            SourceCode := Source (Info unit),
            CompilerVersion := ContractInfo.CompilerVersion (Info unit),
            UpdatedAt := time_Now W\<rparr>))"
proof (cases rule: VerifyContract_outcomes [of W db contractData])
  case (unchanged e)
  then show ?thesis by simp
next
  case (updated contract compileData unit)
  define c' where "c' = contract
           \<lparr>Valid := True,
            Optimization := True,
            ContractName := ContractName contractData,
            SourceCode := Source (Info unit),
            CompilerVersion := ContractInfo.CompilerVersion (Info unit),
            UpdatedAt := time_Now W\<rparr>"
  from updated(4) have V: "VerifyContract W db contractData =
      (if fst (updateContract W db c') then Inr c' else Inl PersistenceFailed,
       snd (updateContract W db c'))"
    unfolding c'_def .
  show ?thesis
  proof (cases "fst (updateContract W db c')")
    case True
    with V have fst: "fst (VerifyContract W db contractData) = Inr c'"
      and upd: "updateContract W db c' = (True, snd (VerifyContract W db contractData))"
      by (simp_all add: prod_eq_iff)
    from updated(1-3) c'_def
    have "\<exists>contract compileData unit.
         GetContract W db (Address contractData) = Some contract \<and>
         CompileSolidityString W ''solc'' (SourceCode contractData) = Some compileData \<and>
         compileData (''<stdin>:'' @ ContractName contractData) = Some unit \<and>
         c' = contract
           \<lparr>Valid := True,
            Optimization := True,
            ContractName := ContractName contractData,
            SourceCode := Source (Info unit),
            CompilerVersion := ContractInfo.CompilerVersion (Info unit),
            UpdatedAt := time_Now W\<rparr>"
      by blast
    with fst upd show ?thesis by simp
  next
    case False
    with V have fst: "fst (VerifyContract W db contractData) = Inl PersistenceFailed"
      and upd: "updateContract W db c' = (False, snd (VerifyContract W db contractData))"
      by (simp_all add: prod_eq_iff)
    from upd have "\<exists>contract'. updateContract W db contract' = (False, snd (VerifyContract W db contractData))"
      by blast
    moreover from upd have "(\<forall>c. \<not> fst (updateContract W db c) \<longrightarrow> snd (updateContract W db c) = db) \<longrightarrow>
        snd (VerifyContract W db contractData) = db"
      by (metis fst_conv snd_conv)
    ultimately show ?thesis using fst by simp
  qed
qed

theorem VerifyContract_single_update_witness:
  "fst (VerifyContract (small_World False ''0x6001'' None) two_contracts
          (submission ''0x01'' ''Foo'' Foo_source)) = Inl PersistenceFailed
 \<and> snd (VerifyContract (small_World False ''0x6001'' None) two_contracts
          (submission ''0x01'' ''Foo'' Foo_source)) = two_contracts
 \<and> updateContract (small_World True ''0x6001'' None) two_contracts
       \<lparr>Address = ''0x01'', Bytecode = ''6001'', Valid = True, Optimization = True,
        ContractName = ''Foo'', SourceCode = Foo_source,
        CompilerVersion = ''0.4.24+commit.e67f0147'', UpdatedAt = 1541116800\<rparr>
     = (True, snd (VerifyContract (small_World True ''0x6001'' None) two_contracts
          (submission ''0x01'' ''Foo'' Foo_source)))"
proof -
  let ?R = "small_World False ''0x6001'' None"
  let ?W = "small_World True ''0x6001'' None"
  let ?cd = "submission ''0x01'' ''Foo'' Foo_source"
  let ?c' = "\<lparr>Address = ''0x01'', Bytecode = ''6001'', Valid = True, Optimization = True,
        ContractName = ''Foo'', SourceCode = Foo_source,
        CompilerVersion = ''0.4.24+commit.e67f0147'', UpdatedAt = 1541116800\<rparr>"
  have rejected: "fst (VerifyContract ?R two_contracts ?cd) = Inl PersistenceFailed"
    by (simp add: VerifyContract_def small_World_defs Let_def PersistenceFailed_def
        reg_match_here_def metadata_marker_def)
  have atomic: "\<forall>c. \<not> fst (updateContract ?R two_contracts c) \<longrightarrow>
      snd (updateContract ?R two_contracts c) = two_contracts"
    by (simp add: small_World_def Update_def)
  from VerifyContract_single_update [of ?R two_contracts ?cd] atomic rejected
  have A: "snd (VerifyContract ?R two_contracts ?cd) = two_contracts"
    by blast
  have accepted: "fst (VerifyContract ?W two_contracts ?cd) = Inr ?c'"
    by (simp add: VerifyContract_def small_World_defs Let_def
        reg_match_here_def metadata_marker_def)
  from VerifyContract_single_update [of ?W two_contracts ?cd] accepted
  have B: "updateContract ?W two_contracts ?c' = (True, snd (VerifyContract ?W two_contracts ?cd))"
    by blast
  from rejected A B show ?thesis by blast
qed

section \<open>Removing the metadata pattern\<close>

text \<open>
  C6: removing the metadata pattern is idempotent: for every string, removing it twice
  gives what removing it once gives.
\<close>

theorem reg_ReplaceAllString_idempotent:
  "reg_ReplaceAllString (reg_ReplaceAllString s) = reg_ReplaceAllString s"
proof (induction s)
  case Nil
  show ?case by simp
next
  case (Cons c cs)
  show ?case
  proof (cases "reg_match_here (c # cs)")
    case True
    then show ?thesis by simp
  next
    case False
    then have "\<not> reg_match_here (c # reg_ReplaceAllString cs)"
      using reg_match_here_Cons_result by blast
    with False Cons show ?thesis by simp
  qed
qed

theorem reg_ReplaceAllString_idempotent_witness:
  "reg_ReplaceAllString (reg_ReplaceAllString (''6001'' @ metadata_marker @ ''aa'' @ ''0029''))
     = reg_ReplaceAllString (''6001'' @ metadata_marker @ ''aa'' @ ''0029'')"
  using reg_ReplaceAllString_idempotent [of "''6001'' @ metadata_marker @ ''aa'' @ ''0029''"] .

text \<open>
  C7: for every common prefix and every two metadata suffixes of bytecode, each the marker
  \<^verbatim>\<open>00a165627a7a72305820\<close> followed by any hex characters and then
  \<^verbatim>\<open>0029\<close>, removing the metadata pattern from the prefix followed by the first
  suffix and from the prefix followed by the second gives equal strings.
\<close>

theorem metadata_suffix_irrelevant:
  assumes "hex_string x" and "hex_string y"
  shows "reg_ReplaceAllString (p @ metadata_marker @ x @ ''0029'')
       = reg_ReplaceAllString (p @ metadata_marker @ y @ ''0029'')"
  using assms by (intro metadata_suffix_no_line_feed hex_string_no_line_feed)

theorem metadata_suffix_irrelevant_witness:
  "reg_ReplaceAllString (''6001'' @ metadata_marker @ ''aa'' @ ''0029'')
     = reg_ReplaceAllString (''6001'' @ metadata_marker @ ''bbcc'' @ ''0029'')"
proof -
  have 1: "hex_string ''aa''" by (simp add: hex_string_def)
  have 2: "hex_string ''bbcc''" by (simp add: hex_string_def)
  from metadata_suffix_irrelevant [OF 1 2] show ?thesis .
qed

section \<open>The compiler version\<close>

text \<open>
  \<^verbatim>\<open>GetCompilerVersion\<close> returns the error \<open>VersionQueryFailed\<close> when the version
  query fails, panics when the full version has no match, and returns the matched text
  when it has one.
\<close>

lemma GetCompilerVersion_query_failed:
  "SolidityVersion W ''solc'' = None \<Longrightarrow> GetCompilerVersion W = Inl VersionQueryFailed"
  by (simp add: GetCompilerVersion_def VersionQueryFailed_def)

lemma GetCompilerVersion_panics:
  "SolidityVersion W ''solc'' = Some result \<Longrightarrow>
   versionRegexp_FindStringSubmatch (FullVersion result) = [] \<Longrightarrow>
   GetCompilerVersion W = Inl (Panic ''index out of range'')"
  by (simp add: GetCompilerVersion_def)

lemma GetCompilerVersion_match:
  "GetCompilerVersion (small_World True ''0x6001'' (Some ''Version: 0.4.24+commit.e67f0147.Linux.g++''))
     = Inr ''0.4.24+commit.e67f0147''"
  by (simp add: GetCompilerVersion_def small_World_def versionRegexp_match_here_def is_digit_def Let_def)

text \<open>
  C9 says that \<^verbatim>\<open>GetCompilerVersion\<close> returns an error value for every full version
  string without a match, and never panics. The code indexes the result of
  \<^verbatim>\<open>FindStringSubmatch\<close> without looking at its length: for the full version
  \<^verbatim>\<open>Version: 0.4.24\<close>, which has no \<^verbatim>\<open>+commit.\<close> part, there is no match and
  the call panics.
\<close>

theorem GetCompilerVersion_no_match:
  "GetCompilerVersion (small_World True ''0x6001'' (Some ''Version: 0.4.24'')) = Inl (Panic ''index out of range'')"
  by (simp add: GetCompilerVersion_def small_World_def versionRegexp_match_here_def is_digit_def Let_def)

end
